theory Spec2Isabelle
  imports Complex_Main
begin

section \<open>Shared conventions\<close>

text \<open>
  The TypeScript services are embedded function by function. An exception is a value of
  \<open>exn\<close>; a function that can be left by an exception returns \<open>exn + 'a\<close>, with
  \<open>Inl\<close> for the exception. A \<^verbatim>\<open>try { ... } catch (error) { ... }\<close> block is
  \<open>try_catch body handler\<close>: its handlers in the source never throw. Objects that a
  method mutates are passed in and returned. \<^verbatim>\<open>console.log\<close> and
  \<^verbatim>\<open>console.error\<close> are not modelled.
\<close>

datatype exn = PostgrestError | FetchError | SyntaxError | QuotaExceededError

definition try_catch :: "(exn + 'a) \<Rightarrow> (exn \<Rightarrow> 'a) \<Rightarrow> exn + 'a" where
  "try_catch body handler = (case body of Inr r \<Rightarrow> Inr r | Inl e \<Rightarrow> Inr (handler e))"

text \<open>JavaScript's \<^verbatim>\<open>Boolean(s)\<close> on a string, and on an optional string.\<close>

definition truthy :: "string \<Rightarrow> bool" where
  "truthy s = (s \<noteq> [])"

definition truthy_opt :: "string option \<Rightarrow> bool" where
  "truthy_opt v = (case v of None \<Rightarrow> False | Some s \<Rightarrow> truthy s)"

text \<open>A number inside a template literal: its decimal digits.\<close>

definition digit :: "nat \<Rightarrow> char" where
  "digit d = ''0123456789'' ! d"

fun show_nat :: "nat \<Rightarrow> string" where
  "show_nat n = (if n < 10 then [digit n] else show_nat (n div 10) @ [digit (n mod 10)])"

declare show_nat.simps [simp del]

section \<open>Alert.ts\<close>

datatype AlertType = Medical | Fire | Police | General

datatype AlertStatus = Pending | Acknowledged | Resolved

text \<open>
  The private fields of class \<^verbatim>\<open>Alert\<close>. \<open>alert_id\<close>, \<open>alert_type\<close> and
  \<open>alert_message\<close> are the source's \<^verbatim>\<open>_id\<close>, \<^verbatim>\<open>_type\<close> and
  \<^verbatim>\<open>_message\<close>; a \<^verbatim>\<open>Date\<close> is its number of milliseconds.
\<close>

record Alert =
  alert_id :: string
  userId :: string
  alert_type :: AlertType
  alert_message :: string
  status :: AlertStatus
  timestamp :: nat
  location :: "(real \<times> real) option"
  locationAddress :: string

text \<open>The setter \<^verbatim>\<open>set status(value) { this._status = value; }\<close>.\<close>

definition set_status :: "'a Alert_scheme \<Rightarrow> AlertStatus \<Rightarrow> 'a Alert_scheme" where
  "set_status a v = a\<lparr>status := v\<rparr>"

record DbRow =
  user_id :: string
  row_type :: AlertType
  row_message :: string
  row_status :: AlertStatus
  latitude :: "real option"
  longitude :: "real option"
  location_address :: string

definition toDatabase :: "'a Alert_scheme \<Rightarrow> DbRow" where
  "toDatabase a =
     \<lparr>user_id = userId a, row_type = alert_type a, row_message = alert_message a,
      row_status = status a, latitude = map_option fst (location a),
      longitude = map_option snd (location a), location_address = locationAddress a\<rparr>"

section \<open>AlertTypes.ts\<close>

text \<open>
  What the channels reach outside the program: the \<^verbatim>\<open>alerts\<close> table's
  insert-select-single (the new row's id, or an exception: a reported
  \<^verbatim>\<open>alertError\<close> is thrown by the source at once), the call of an edge
  function by name (\<open>Inl\<close> when the call throws; the source does not read its reply), and
  the \<^verbatim>\<open>crypto.randomUUID()\<close> and \<^verbatim>\<open>new Date()\<close> of the \<open>k\<close>-th
  object built during a call.
\<close>

record Env =
  alerts_insert :: "DbRow \<Rightarrow> exn + string"
  functions_invoke :: "string \<Rightarrow> string \<Rightarrow> exn + unit"
  randomUUID :: "nat \<Rightarrow> string"
  clock :: "nat \<Rightarrow> nat"

record SendResult =
  success :: bool
  message :: string

record SMSAlert = Alert +
  phoneNumbers :: "string list"

record EmailAlert = Alert +
  emailAddresses :: "string list"

record AuthorityAlert = Alert +
  authorityType :: string

record PushNotificationAlert = Alert +
  deviceTokens :: "string list"

text \<open>
  The constructors: \<open>uid\<close> and \<open>now\<close> are what \<^verbatim>\<open>crypto.randomUUID()\<close> and
  \<^verbatim>\<open>new Date()\<close> return in the base constructor, which sets the status to
  \<^verbatim>\<open>"pending"\<close>.
\<close>

definition new_SMSAlert ::
  "string \<Rightarrow> nat \<Rightarrow> string \<Rightarrow> AlertType \<Rightarrow> string \<Rightarrow> (real \<times> real) option \<Rightarrow> string
     \<Rightarrow> string list \<Rightarrow> SMSAlert" where
  "new_SMSAlert uid now u t m loc addr phones =
     \<lparr>alert_id = uid, userId = u, alert_type = t, alert_message = m, status = Pending,
      timestamp = now, location = loc, locationAddress = addr, phoneNumbers = phones\<rparr>"

definition new_EmailAlert ::
  "string \<Rightarrow> nat \<Rightarrow> string \<Rightarrow> AlertType \<Rightarrow> string \<Rightarrow> (real \<times> real) option \<Rightarrow> string
     \<Rightarrow> string list \<Rightarrow> EmailAlert" where
  "new_EmailAlert uid now u t m loc addr emails =
     \<lparr>alert_id = uid, userId = u, alert_type = t, alert_message = m, status = Pending,
      timestamp = now, location = loc, locationAddress = addr, emailAddresses = emails\<rparr>"

fun determineAuthority :: "AlertType \<Rightarrow> string" where
  "determineAuthority Medical = ''911 Medical''"
| "determineAuthority Fire = ''Fire Department''"
| "determineAuthority Police = ''Police Department''"
| "determineAuthority General = ''Emergency Services''"

definition new_AuthorityAlert ::
  "string \<Rightarrow> nat \<Rightarrow> string \<Rightarrow> AlertType \<Rightarrow> string \<Rightarrow> (real \<times> real) option \<Rightarrow> string
     \<Rightarrow> AuthorityAlert" where
  "new_AuthorityAlert uid now u t m loc addr =
     \<lparr>alert_id = uid, userId = u, alert_type = t, alert_message = m, status = Pending,
      timestamp = now, location = loc, locationAddress = addr,
      authorityType = determineAuthority t\<rparr>"

definition new_PushNotificationAlert ::
  "string \<Rightarrow> nat \<Rightarrow> string \<Rightarrow> AlertType \<Rightarrow> string \<Rightarrow> (real \<times> real) option \<Rightarrow> string
     \<Rightarrow> string list \<Rightarrow> PushNotificationAlert" where
  "new_PushNotificationAlert uid now u t m loc addr tokens =
     \<lparr>alert_id = uid, userId = u, alert_type = t, alert_message = m, status = Pending,
      timestamp = now, location = loc, locationAddress = addr, deviceTokens = tokens\<rparr>"

text \<open>
  Each \<^verbatim>\<open>sendAlert\<close> is a \<^verbatim>\<open>try\<close> body and its \<^verbatim>\<open>catch\<close>
  handler; it returns the channel's own object, as the method leaves it, and the result.
  The bodies of the simulated channels have no statement that can throw.
\<close>

definition SMSAlert_body :: "SMSAlert \<Rightarrow> exn + SMSAlert \<times> SendResult" where
  "SMSAlert_body a =
     Inr (set_status a Acknowledged,
          \<lparr>success = True,
           message = ''SMS alerts sent to '' @ show_nat (length (phoneNumbers a)) @ '' contacts''\<rparr>)"

definition SMSAlert_sendAlert :: "SMSAlert \<Rightarrow> exn + SMSAlert \<times> SendResult" where
  "SMSAlert_sendAlert a =
     try_catch (SMSAlert_body a)
       (\<lambda>error. (set_status a Pending,
                  \<lparr>success = False, message = ''Failed to send SMS alerts''\<rparr>))"

definition EmailAlert_body :: "EmailAlert \<Rightarrow> exn + EmailAlert \<times> SendResult" where
  "EmailAlert_body a =
     Inr (set_status a Acknowledged,
          \<lparr>success = True,
           message = ''Email alerts sent to '' @ show_nat (length (emailAddresses a)) @ '' contacts''\<rparr>)"

definition EmailAlert_sendAlert :: "EmailAlert \<Rightarrow> exn + EmailAlert \<times> SendResult" where
  "EmailAlert_sendAlert a =
     try_catch (EmailAlert_body a)
       (\<lambda>error. (set_status a Pending,
                  \<lparr>success = False, message = ''Failed to send email alerts''\<rparr>))"

definition AuthorityAlert_body :: "Env \<Rightarrow> AuthorityAlert \<Rightarrow> exn + AuthorityAlert \<times> SendResult" where
  "AuthorityAlert_body env a =
     (case alerts_insert env (toDatabase a) of
        Inl alertError \<Rightarrow> Inl alertError
      | Inr alertData_id \<Rightarrow>
          (case functions_invoke env ''notify-emergency'' alertData_id of
             Inl e \<Rightarrow> Inl e
           | Inr _ \<Rightarrow>
               Inr (set_status a Acknowledged,
                    \<lparr>success = True, message = authorityType a @ '' has been notified''\<rparr>)))"

definition AuthorityAlert_sendAlert :: "Env \<Rightarrow> AuthorityAlert \<Rightarrow> exn + AuthorityAlert \<times> SendResult" where
  "AuthorityAlert_sendAlert env a =
     try_catch (AuthorityAlert_body env a)
       (\<lambda>error. (set_status a Pending,
                  \<lparr>success = False, message = ''Failed to notify authorities''\<rparr>))"

definition PushNotificationAlert_body ::
  "PushNotificationAlert \<Rightarrow> exn + PushNotificationAlert \<times> SendResult" where
  "PushNotificationAlert_body a =
     Inr (set_status a Acknowledged,
          \<lparr>success = True,
           message = ''Push notifications sent to '' @ show_nat (length (deviceTokens a)) @ '' devices''\<rparr>)"

definition PushNotificationAlert_sendAlert ::
  "PushNotificationAlert \<Rightarrow> exn + PushNotificationAlert \<times> SendResult" where
  "PushNotificationAlert_sendAlert a =
     try_catch (PushNotificationAlert_body a)
       (\<lambda>error. (set_status a Pending,
                  \<lparr>success = False, message = ''Failed to send push notifications''\<rparr>))"

section \<open>NotificationService.ts\<close>

record Contact =
  contact_id :: string
  name :: string
  phone :: string
  email :: "string option"
  relationship :: string

text \<open>An entry of \<^verbatim>\<open>results\<close>: \<^verbatim>\<open>{ type: "SMS", ...result }\<close>.\<close>

record ChannelResult = SendResult +
  result_type :: string

definition tagged :: "string \<Rightarrow> SendResult \<Rightarrow> ChannelResult" where
  "tagged t r = \<lparr>success = success r, message = message r, result_type = t\<rparr>"

record NotifyResult =
  all_success :: bool
  results :: "ChannelResult list"

definition phoneNumbers_of :: "Contact list \<Rightarrow> string list" where
  "phoneNumbers_of contacts = filter truthy (map phone contacts)"

definition emailAddresses_of :: "Contact list \<Rightarrow> string list" where
  "emailAddresses_of contacts = map the (filter truthy_opt (map email contacts))"

text \<open>
  The four blocks of \<^verbatim>\<open>notifyAll\<close>, each from the results so far to the results
  after it. An exception of an awaited \<^verbatim>\<open>sendAlert\<close> would leave
  \<^verbatim>\<open>notifyAll\<close>, which has no handler of its own.
\<close>

definition sms_block ::
  "Env \<Rightarrow> 'a Alert_scheme \<Rightarrow> Contact list \<Rightarrow> ChannelResult list \<Rightarrow> exn + ChannelResult list" where
  "sms_block env alert contacts rs =
     (let phoneNumbers = phoneNumbers_of contacts in
      if length phoneNumbers > 0 then
        (case SMSAlert_sendAlert
                (new_SMSAlert (randomUUID env 0) (clock env 0) (userId alert) (alert_type alert)
                   (alert_message alert) (location alert) (locationAddress alert) phoneNumbers) of
           Inl e \<Rightarrow> Inl e
         | Inr (smsAlert, result) \<Rightarrow> Inr (rs @ [tagged ''SMS'' result]))
      else Inr rs)"

definition email_block ::
  "Env \<Rightarrow> 'a Alert_scheme \<Rightarrow> Contact list \<Rightarrow> ChannelResult list \<Rightarrow> exn + ChannelResult list" where
  "email_block env alert contacts rs =
     (let emailAddresses = emailAddresses_of contacts in
      if length emailAddresses > 0 then
        (case EmailAlert_sendAlert
                (new_EmailAlert (randomUUID env 1) (clock env 1) (userId alert) (alert_type alert)
                   (alert_message alert) (location alert) (locationAddress alert) emailAddresses) of
           Inl e \<Rightarrow> Inl e
         | Inr (emailAlert, result) \<Rightarrow> Inr (rs @ [tagged ''Email'' result]))
      else Inr rs)"

definition authority_block ::
  "Env \<Rightarrow> 'a Alert_scheme \<Rightarrow> ChannelResult list \<Rightarrow> exn + ChannelResult list" where
  "authority_block env alert rs =
     (case AuthorityAlert_sendAlert env
             (new_AuthorityAlert (randomUUID env 2) (clock env 2) (userId alert) (alert_type alert)
                (alert_message alert) (location alert) (locationAddress alert)) of
        Inl e \<Rightarrow> Inl e
      | Inr (authorityAlert, authorityResult) \<Rightarrow> Inr (rs @ [tagged ''Authority'' authorityResult]))"

definition pushAlert_of :: "Env \<Rightarrow> 'a Alert_scheme \<Rightarrow> PushNotificationAlert" where
  "pushAlert_of env alert =
     new_PushNotificationAlert (randomUUID env 3) (clock env 3) (userId alert) (alert_type alert)
       (alert_message alert) (location alert) (locationAddress alert)
       [''device-token-1'', ''device-token-2'']"

definition push_block ::
  "Env \<Rightarrow> 'a Alert_scheme \<Rightarrow> ChannelResult list \<Rightarrow> exn + ChannelResult list" where
  "push_block env alert rs =
     (case PushNotificationAlert_sendAlert (pushAlert_of env alert) of
        Inl e \<Rightarrow> Inl e
      | Inr (pushAlert, pushResult) \<Rightarrow> Inr (rs @ [tagged ''Push'' pushResult]))"

text \<open>
  \<^verbatim>\<open>notifyAll(alert, contacts)\<close> returns the alert object it was given, as the call
  leaves it, and \<^verbatim>\<open>{ success: allSuccess, results }\<close>. The source reads five
  getters of \<^verbatim>\<open>alert\<close> and calls no setter of it.
\<close>

definition notifyAll ::
  "Env \<Rightarrow> 'a Alert_scheme \<Rightarrow> Contact list \<Rightarrow> exn + 'a Alert_scheme \<times> NotifyResult" where
  "notifyAll env alert contacts =
     (case sms_block env alert contacts [] of
        Inl e \<Rightarrow> Inl e
      | Inr rs1 \<Rightarrow>
     (case email_block env alert contacts rs1 of
        Inl e \<Rightarrow> Inl e
      | Inr rs2 \<Rightarrow>
     (case authority_block env alert rs2 of
        Inl e \<Rightarrow> Inl e
      | Inr rs3 \<Rightarrow>
     (case push_block env alert rs3 of
        Inl e \<Rightarrow> Inl e
      | Inr rs4 \<Rightarrow>
          (let allSuccess = list_all success rs4
           in Inr (alert, \<lparr>all_success = allSuccess, results = rs4\<rparr>))))))"

section \<open>FileHandler.ts\<close>

record EmergencyLog =
  log_id :: string
  log_userId :: string
  log_type :: string
  log_message :: string
  log_location :: "(real \<times> real) option"
  log_locationAddress :: string
  log_timestamp :: nat
  log_status :: string
  notificationResults :: "ChannelResult list option"

text \<open>
  \<^verbatim>\<open>localStorage\<close> maps a key to a string. A stored string is kept as what
  \<^verbatim>\<open>readLogs\<close> makes of it: the list of logs that was written (\<open>Encoded\<close>),
  or a string on which \<^verbatim>\<open>JSON.parse\<close> or \<^verbatim>\<open>logs.map\<close> throws
  (\<open>Malformed\<close>). \<^verbatim>\<open>JSON.stringify\<close> followed by the parse
  and the \<^verbatim>\<open>new Date(log.timestamp)\<close> of \<^verbatim>\<open>readLogs\<close> gives the logs
  back. \<^verbatim>\<open>setItem\<close> throws when the browser refuses the write (the flag
  \<open>ok\<close> of a call is false).
\<close>

datatype item = Malformed | Encoded "EmergencyLog list"

type_synonym localStorage = "string \<rightharpoonup> item"

definition STORAGE_KEY :: string where
  "STORAGE_KEY = ''emergency_logs''"

definition MAX_LOGS :: nat where
  "MAX_LOGS = 100"

definition getItem :: "localStorage \<Rightarrow> string \<Rightarrow> item option" where
  "getItem ls k = ls k"

definition setItem :: "bool \<Rightarrow> localStorage \<Rightarrow> string \<Rightarrow> item \<Rightarrow> exn + localStorage" where
  "setItem ok ls k v = (if ok then Inr (ls(k \<mapsto> v)) else Inl QuotaExceededError)"

definition removeItem :: "localStorage \<Rightarrow> string \<Rightarrow> exn + localStorage" where
  "removeItem ls k = Inr (ls(k := None))"

definition JSON_stringify :: "EmergencyLog list \<Rightarrow> item" where
  "JSON_stringify logs = Encoded logs"

definition JSON_parse :: "item \<Rightarrow> exn + EmergencyLog list" where
  "JSON_parse data = (case data of Malformed \<Rightarrow> Inl SyntaxError | Encoded logs \<Rightarrow> Inr logs)"

definition readLogs_body :: "localStorage \<Rightarrow> exn + EmergencyLog list" where
  "readLogs_body ls =
     (case getItem ls STORAGE_KEY of
        None \<Rightarrow> Inr []
      | Some data \<Rightarrow> JSON_parse data)"

definition readLogs :: "localStorage \<Rightarrow> exn + EmergencyLog list" where
  "readLogs ls = try_catch (readLogs_body ls) (\<lambda>error. [])"

definition saveLog_body :: "bool \<Rightarrow> localStorage \<Rightarrow> EmergencyLog \<Rightarrow> exn + localStorage" where
  "saveLog_body ok ls entry =
     (case readLogs ls of
        Inl e \<Rightarrow> Inl e
      | Inr logs \<Rightarrow>
          (let logs' = entry # logs;
               trimmedLogs = take MAX_LOGS logs'
           in setItem ok ls STORAGE_KEY (JSON_stringify trimmedLogs)))"

definition saveLog :: "bool \<Rightarrow> localStorage \<Rightarrow> EmergencyLog \<Rightarrow> exn + localStorage" where
  "saveLog ok ls entry = try_catch (saveLog_body ok ls entry) (\<lambda>error. ls)"


definition deleteLog_body :: "bool \<Rightarrow> localStorage \<Rightarrow> string \<Rightarrow> exn + localStorage" where
  "deleteLog_body ok ls logId =
     (case readLogs ls of
        Inl e \<Rightarrow> Inl e
      | Inr logs \<Rightarrow>
          (let filteredLogs = filter (\<lambda>entry. log_id entry \<noteq> logId) logs
           in setItem ok ls STORAGE_KEY (JSON_stringify filteredLogs)))"

definition deleteLog :: "bool \<Rightarrow> localStorage \<Rightarrow> string \<Rightarrow> exn + localStorage" where
  "deleteLog ok ls logId = try_catch (deleteLog_body ok ls logId) (\<lambda>error. ls)"

definition clearAllLogs :: "localStorage \<Rightarrow> exn + localStorage" where
  "clearAllLogs ls = try_catch (removeItem ls STORAGE_KEY) (\<lambda>error. ls)"













text \<open>Sequences of calls on the store; a call that throws ends the sequence.\<close>

datatype store_op = SaveLog bool EmergencyLog | DeleteLog bool string | ClearAllLogs

fun step :: "localStorage \<Rightarrow> store_op \<Rightarrow> exn + localStorage" where
  "step ls (SaveLog ok entry) = saveLog ok ls entry"
| "step ls (DeleteLog ok logId) = deleteLog ok ls logId"
| "step ls ClearAllLogs = clearAllLogs ls"

fun run :: "localStorage \<Rightarrow> store_op list \<Rightarrow> exn + localStorage" where
  "run ls [] = Inr ls"
| "run ls (c # cs) = (case step ls c of Inl e \<Rightarrow> Inl e | Inr ls' \<Rightarrow> run ls' cs)"

section \<open>Sample inputs\<close>

definition env_up :: Env where
  "env_up =
     \<lparr>alerts_insert = (\<lambda>row. Inr ''row-1''), functions_invoke = (\<lambda>f body. Inr ()),
      randomUUID = (\<lambda>k. ''uuid-'' @ show_nat k), clock = (\<lambda>k. 1000 + k)\<rparr>"

definition env_down :: Env where
  "env_down =
     \<lparr>alerts_insert = (\<lambda>row. Inl PostgrestError), functions_invoke = (\<lambda>f body. Inl FetchError),
      randomUUID = (\<lambda>k. ''uuid-'' @ show_nat k), clock = (\<lambda>k. 1000 + k)\<rparr>"

definition sample_alert :: "AlertStatus \<Rightarrow> Alert" where
  "sample_alert st =
     \<lparr>alert_id = ''a-1'', userId = ''u-1'', alert_type = Medical, alert_message = ''help'',
      status = st, timestamp = 999, location = None, locationAddress = ''home''\<rparr>"

definition sample_contact :: "string \<Rightarrow> string option \<Rightarrow> Contact" where
  "sample_contact p e =
     \<lparr>contact_id = ''c-1'', name = ''Ann'', phone = p, email = e, relationship = ''friend''\<rparr>"

definition sample_log :: "nat \<Rightarrow> EmergencyLog" where
  "sample_log n =
     \<lparr>log_id = show_nat n, log_userId = ''u-1'', log_type = ''medical'', log_message = ''help'',
      log_location = None, log_locationAddress = ''home'', log_timestamp = n,
      log_status = ''pending'', notificationResults = None\<rparr>"

definition sample_store :: localStorage where
  "sample_store = Map.empty(STORAGE_KEY \<mapsto> Encoded [sample_log 1])"



section \<open>Auxiliary facts\<close>

subsection \<open>Channels and dispatch\<close>

lemma show_nat_digits:
  "show_nat 0 = ''0''" "show_nat 1 = ''1''" "show_nat (Suc 0) = ''1''" "show_nat 2 = ''2''"
  "show_nat (Suc (Suc 0)) = ''2''"
  by (simp_all add: show_nat.simps digit_def)

lemma try_catch_Inr: "try_catch (Inr r) h = Inr r"
  by (simp add: try_catch_def)

lemma try_catch_Inl: "try_catch (Inl e) h = Inr (h e)"
  by (simp add: try_catch_def)

lemma try_catch_total: "\<exists>r. try_catch b h = Inr r"
  by (cases b) (simp_all add: try_catch_def)

lemma SMSAlert_sendAlert_eq:
  "SMSAlert_sendAlert a =
     Inr (set_status a Acknowledged,
          \<lparr>success = True,
           message = ''SMS alerts sent to '' @ show_nat (length (phoneNumbers a)) @ '' contacts''\<rparr>)"
  by (simp add: SMSAlert_sendAlert_def SMSAlert_body_def try_catch_Inr)

lemma EmailAlert_sendAlert_eq:
  "EmailAlert_sendAlert a =
     Inr (set_status a Acknowledged,
          \<lparr>success = True,
           message = ''Email alerts sent to '' @ show_nat (length (emailAddresses a)) @ '' contacts''\<rparr>)"
  by (simp add: EmailAlert_sendAlert_def EmailAlert_body_def try_catch_Inr)

lemma PushNotificationAlert_sendAlert_eq:
  "PushNotificationAlert_sendAlert a =
     Inr (set_status a Acknowledged,
          \<lparr>success = True,
           message = ''Push notifications sent to '' @ show_nat (length (deviceTokens a)) @ '' devices''\<rparr>)"
  by (simp add: PushNotificationAlert_sendAlert_def PushNotificationAlert_body_def try_catch_Inr)

lemma AuthorityAlert_sendAlert_failed:
  "AuthorityAlert_body env a = Inl e \<Longrightarrow>
   AuthorityAlert_sendAlert env a =
     Inr (set_status a Pending, \<lparr>success = False, message = ''Failed to notify authorities''\<rparr>)"
  by (simp add: AuthorityAlert_sendAlert_def try_catch_Inl)

lemma AuthorityAlert_sendAlert_total: "\<exists>obj res. AuthorityAlert_sendAlert env a = Inr (obj, res)"
  using try_catch_total [of "AuthorityAlert_body env a"] 
  by (auto simp add: AuthorityAlert_sendAlert_def)

lemma phoneNumbers_of_empty:
  "(phoneNumbers_of contacts = []) = (\<not> (\<exists>c \<in> set contacts. phone c \<noteq> []))"
  by (auto simp add: phoneNumbers_of_def truthy_def filter_empty_conv)

lemma emailAddresses_of_empty:
  "(emailAddresses_of contacts = []) =
     (\<not> (\<exists>c \<in> set contacts. \<exists>e. email c = Some e \<and> e \<noteq> []))"
  by (auto simp add: emailAddresses_of_def truthy_opt_def truthy_def filter_empty_conv
      split: option.splits)

lemma sms_block_eq:
  "sms_block env alert contacts rs =
     Inr (rs @ (if phoneNumbers_of contacts = [] then []
                else [\<lparr>success = True,
                       message = ''SMS alerts sent to '' @
                         show_nat (length (phoneNumbers_of contacts)) @ '' contacts'',
                       result_type = ''SMS''\<rparr>]))"
  by (simp add: sms_block_def SMSAlert_sendAlert_eq Let_def tagged_def new_SMSAlert_def)

lemma email_block_eq:
  "email_block env alert contacts rs =
     Inr (rs @ (if emailAddresses_of contacts = [] then []
                else [\<lparr>success = True,
                       message = ''Email alerts sent to '' @
                         show_nat (length (emailAddresses_of contacts)) @ '' contacts'',
                       result_type = ''Email''\<rparr>]))"
  by (simp add: email_block_def EmailAlert_sendAlert_eq Let_def tagged_def new_EmailAlert_def)

lemma authority_block_eq:
  "\<exists>res. authority_block env alert rs = Inr (rs @ [tagged ''Authority'' res])"
  using AuthorityAlert_sendAlert_total
    [of env "new_AuthorityAlert (randomUUID env 2) (clock env 2) (userId alert) (alert_type alert)
                (alert_message alert) (location alert) (locationAddress alert)"]
  by (auto simp add: authority_block_def)

lemma deviceTokens_pushAlert_of:
  "deviceTokens (pushAlert_of env alert) = [''device-token-1'', ''device-token-2'']"
  by (simp add: pushAlert_of_def new_PushNotificationAlert_def)

lemma push_block_eq:
  "push_block env alert rs =
     Inr (rs @ [\<lparr>success = True, message = ''Push notifications sent to 2 devices'',
                  result_type = ''Push''\<rparr>])"
  by (simp add: push_block_def PushNotificationAlert_sendAlert_eq deviceTokens_pushAlert_of
      tagged_def show_nat_digits)

lemma sms_block_linked:
  "SMSAlert_sendAlert
     (new_SMSAlert (randomUUID env 0) (clock env 0) (userId alert) (alert_type alert)
        (alert_message alert) (location alert) (locationAddress alert)
        (phoneNumbers_of contacts)) = Inr (obj, res) \<Longrightarrow>
   sms_block env alert contacts rs =
     Inr (rs @ (if phoneNumbers_of contacts = [] then [] else [tagged ''SMS'' res]))"
  by (simp add: sms_block_def Let_def)

lemma email_block_linked:
  "EmailAlert_sendAlert
     (new_EmailAlert (randomUUID env 1) (clock env 1) (userId alert) (alert_type alert)
        (alert_message alert) (location alert) (locationAddress alert)
        (emailAddresses_of contacts)) = Inr (obj, res) \<Longrightarrow>
   email_block env alert contacts rs =
     Inr (rs @ (if emailAddresses_of contacts = [] then [] else [tagged ''Email'' res]))"
  by (simp add: email_block_def Let_def)

lemma authority_block_linked:
  "AuthorityAlert_sendAlert env
     (new_AuthorityAlert (randomUUID env 2) (clock env 2) (userId alert) (alert_type alert)
        (alert_message alert) (location alert) (locationAddress alert)) = Inr (obj, res) \<Longrightarrow>
   authority_block env alert rs = Inr (rs @ [tagged ''Authority'' res])"
  by (simp add: authority_block_def)

lemma push_block_linked:
  "PushNotificationAlert_sendAlert (pushAlert_of env alert) = Inr (obj, res) \<Longrightarrow>
   push_block env alert rs = Inr (rs @ [tagged ''Push'' res])"
  by (simp add: push_block_def)

lemma result_type_tagged: "result_type (tagged t res) = t"
  by (simp add: tagged_def)

text \<open>
  The whole of a dispatch: the alert comes back as it went in, the overall flag is the
  Authority channel's, and the entries stand in the order SMS, Email, Authority, Push.
\<close>

lemma notifyAll_shape:
  "\<exists>au.
     notifyAll env alert contacts =
       Inr (alert,
            \<lparr>all_success = success au,
             results =
               (if phoneNumbers_of contacts = [] then []
                else [\<lparr>success = True,
                       message = ''SMS alerts sent to '' @
                         show_nat (length (phoneNumbers_of contacts)) @ '' contacts'',
                       result_type = ''SMS''\<rparr>]) @
               (if emailAddresses_of contacts = [] then []
                else [\<lparr>success = True,
                       message = ''Email alerts sent to '' @
                         show_nat (length (emailAddresses_of contacts)) @ '' contacts'',
                       result_type = ''Email''\<rparr>]) @
               [tagged ''Authority'' au,
                \<lparr>success = True, message = ''Push notifications sent to 2 devices'',
                 result_type = ''Push''\<rparr>]\<rparr>)"
proof -
  define rs2 where
    "rs2 = (if phoneNumbers_of contacts = [] then []
                else [\<lparr>success = True,
                       message = ''SMS alerts sent to '' @
                         show_nat (length (phoneNumbers_of contacts)) @ '' contacts'',
                       result_type = ''SMS''\<rparr>]) @
               (if emailAddresses_of contacts = [] then []
                else [\<lparr>success = True,
                       message = ''Email alerts sent to '' @
                         show_nat (length (emailAddresses_of contacts)) @ '' contacts'',
                       result_type = ''Email''\<rparr>])"
  have all2: "list_all success rs2"
    by (simp add: rs2_def)
  obtain au where au: "authority_block env alert rs2 = Inr (rs2 @ [tagged ''Authority'' au])"
    using authority_block_eq [of env alert rs2] by blast
  have "notifyAll env alert contacts =
          Inr (alert,
               \<lparr>all_success = success au,
                results = rs2 @ [tagged ''Authority'' au,
                  \<lparr>success = True, message = ''Push notifications sent to 2 devices'',
                   result_type = ''Push''\<rparr>]\<rparr>)"
    using au all2
    by (simp add: notifyAll_def sms_block_eq email_block_eq push_block_eq
        rs2_def [symmetric] tagged_def)
  then show ?thesis
    unfolding rs2_def by auto
qed

lemma notifyAll_summary:
  "\<exists>r. notifyAll env alert contacts = Inr (alert, r) \<and>
       map result_type (results r) =
          (if \<exists>c \<in> set contacts. phone c \<noteq> [] then [''SMS''] else []) @
          (if \<exists>c \<in> set contacts. \<exists>e. email c = Some e \<and> e \<noteq> [] then [''Email''] else []) @
          [''Authority'', ''Push''] \<and>
       all_success r = list_all success (results r) \<and>
       last (results r) =
          \<lparr>success = True, message = ''Push notifications sent to 2 devices'',
           result_type = ''Push''\<rparr> \<and>
       filter (\<lambda>x. result_type x = ''Push'') (results r) =
          [\<lparr>success = True, message = ''Push notifications sent to 2 devices'',
            result_type = ''Push''\<rparr>]"
proof -
  obtain au where
    "notifyAll env alert contacts =
       Inr (alert,
            \<lparr>all_success = success au,
             results =
               (if phoneNumbers_of contacts = [] then []
                else [\<lparr>success = True,
                       message = ''SMS alerts sent to '' @
                         show_nat (length (phoneNumbers_of contacts)) @ '' contacts'',
                       result_type = ''SMS''\<rparr>]) @
               (if emailAddresses_of contacts = [] then []
                else [\<lparr>success = True,
                       message = ''Email alerts sent to '' @
                         show_nat (length (emailAddresses_of contacts)) @ '' contacts'',
                       result_type = ''Email''\<rparr>]) @
               [tagged ''Authority'' au,
                \<lparr>success = True, message = ''Push notifications sent to 2 devices'',
                 result_type = ''Push''\<rparr>]\<rparr>)"
    using notifyAll_shape [of env alert contacts] by blast
  then show ?thesis
    by (simp add: phoneNumbers_of_empty emailAddresses_of_empty tagged_def)
qed

subsection \<open>The log store\<close>

lemma readLogs_total: "\<exists>logs. readLogs ls = Inr logs"
  unfolding readLogs_def by (rule try_catch_total)

lemma readLogs_stored: "readLogs (ls(STORAGE_KEY \<mapsto> Encoded logs)) = Inr logs"
  by (simp add: readLogs_def readLogs_body_def getItem_def JSON_parse_def try_catch_def)

lemma readLogs_removed: "readLogs (ls(STORAGE_KEY := None)) = Inr []"
  by (simp add: readLogs_def readLogs_body_def getItem_def try_catch_def)

lemma readLogs_empty: "readLogs Map.empty = Inr []"
  by (simp add: readLogs_def readLogs_body_def getItem_def try_catch_def)

lemma saveLog_written:
  "readLogs ls = Inr logs \<Longrightarrow>
   saveLog True ls entry = Inr (ls(STORAGE_KEY \<mapsto> Encoded (take 100 (entry # logs))))"
  by (simp add: saveLog_def saveLog_body_def setItem_def JSON_stringify_def MAX_LOGS_def
      try_catch_def)

lemma saveLog_refused: "saveLog False ls entry = Inr ls"
  using readLogs_total [of ls]
  by (auto simp add: saveLog_def saveLog_body_def setItem_def try_catch_def)

lemma deleteLog_written:
  "readLogs ls = Inr logs \<Longrightarrow>
   deleteLog True ls logId =
     Inr (ls(STORAGE_KEY \<mapsto> Encoded (filter (\<lambda>entry. log_id entry \<noteq> logId) logs)))"
  by (simp add: deleteLog_def deleteLog_body_def setItem_def JSON_stringify_def try_catch_def)

lemma deleteLog_refused: "deleteLog False ls logId = Inr ls"
  using readLogs_total [of ls]
  by (auto simp add: deleteLog_def deleteLog_body_def setItem_def try_catch_def)

lemma clearAllLogs_eq: "clearAllLogs ls = Inr (ls(STORAGE_KEY := None))"
  by (simp add: clearAllLogs_def removeItem_def try_catch_def)

lemma step_cap:
  assumes "readLogs ls = Inr logs" and "length logs \<le> 100"
  shows "\<exists>ls' logs'. step ls c = Inr ls' \<and> readLogs ls' = Inr logs' \<and> length logs' \<le> 100"
proof (cases c)
  case (SaveLog ok entry)
  show ?thesis
  proof (cases ok)
    case True
    with SaveLog assms show ?thesis
      by (simp add: saveLog_written readLogs_stored)
  next
    case False
    with SaveLog assms show ?thesis
      by (simp add: saveLog_refused)
  qed
next
  case (DeleteLog ok logId)
  show ?thesis
  proof (cases ok)
    case True
    have "length (filter (\<lambda>entry. log_id entry \<noteq> logId) logs) \<le> 100"
      using length_filter_le [of "\<lambda>entry. log_id entry \<noteq> logId" logs] assms(2)
      by (rule le_trans)
    with True DeleteLog assms show ?thesis
      by (simp add: deleteLog_written readLogs_stored)
  next
    case False
    with DeleteLog assms show ?thesis
      by (simp add: deleteLog_refused)
  qed
next
  case ClearAllLogs
  then show ?thesis
    by (simp add: clearAllLogs_eq readLogs_removed)
qed

lemma run_cap:
  "readLogs ls = Inr logs \<Longrightarrow> length logs \<le> 100 \<Longrightarrow>
   \<exists>ls' logs'. run ls cs = Inr ls' \<and> readLogs ls' = Inr logs' \<and> length logs' \<le> 100"
proof (induction cs arbitrary: ls logs)
  case Nil
  then show ?case by simp
next
  case (Cons c cs)
  from step_cap [OF Cons.prems] obtain ls1 logs1 where
    s: "step ls c = Inr ls1" "readLogs ls1 = Inr logs1" "length logs1 \<le> 100"
    by blast
  from Cons.IH [OF s(2) s(3)] s(1) show ?case by simp
qed

lemma take_append_take: "take n (xs @ take n ys) = take n (xs @ ys)"
  by (simp add: min_def)

lemma run_saves:
  "readLogs ls = Inr logs \<Longrightarrow> length logs \<le> 100 \<Longrightarrow>
   \<exists>ls'. run ls (map (SaveLog True) batch) = Inr ls' \<and>
         readLogs ls' = Inr (take 100 (rev batch @ logs))"
proof (induction batch arbitrary: ls logs)
  case Nil
  then show ?case by simp
next
  case (Cons entry batch)
  have w: "saveLog True ls entry = Inr (ls(STORAGE_KEY \<mapsto> Encoded (take 100 (entry # logs))))"
    using Cons.prems(1) by (rule saveLog_written)
  have r: "readLogs (ls(STORAGE_KEY \<mapsto> Encoded (take 100 (entry # logs)))) =
           Inr (take 100 (entry # logs))"
    by (rule readLogs_stored)
  have "length (take 100 (entry # logs)) \<le> 100"
    by simp
  from Cons.IH [OF r this] obtain ls' where
    ls': "run (ls(STORAGE_KEY \<mapsto> Encoded (take 100 (entry # logs)))) (map (SaveLog True) batch) =
            Inr ls'"
      "readLogs ls' = Inr (take 100 (rev batch @ take 100 (entry # logs)))"
    by blast
  have "take 100 (rev batch @ take 100 (entry # logs)) = take 100 (rev (entry # batch) @ logs)"
    using take_append_take [of 100 "rev batch" "entry # logs"] by simp
  with ls' w show ?case by simp
qed







lemma sample_batch_distinct: "distinct (map log_id (map sample_log [0..<101]))"
  by code_simp

lemma readLogs_sample_store: "readLogs sample_store = Inr [sample_log 1]"
  unfolding sample_store_def by (rule readLogs_stored)





section \<open>The claims\<close>

text \<open>
  Claim C1, as the code has it: \<^verbatim>\<open>notifyAll\<close> always returns, and the alert it
  was given has afterwards the status it had before (and every other field), whatever the
  channel outcomes. In particular the call never makes the status \<^verbatim>\<open>resolved\<close>,
  and never makes it \<^verbatim>\<open>acknowledged\<close> either.
\<close>

theorem notifyAll_keeps_status:
  "\<exists>alert' r. notifyAll env alert contacts = Inr (alert', r) \<and>
       alert' = alert \<and> status alert' = status alert"
  using notifyAll_shape [of env alert contacts] by blast

text \<open>
  Claim C1 as stated fails: with a backend that answers, no contacts and a pending alert,
  every outcome has \<open>success = True\<close>, and the alert is still pending, not acknowledged.
\<close>

theorem notifyAll_status_counterexample:
  "notifyAll env_up (sample_alert Pending) [] =
     Inr (sample_alert Pending,
          \<lparr>all_success = True,
           results =
             [\<lparr>success = True, message = ''911 Medical has been notified'',
               result_type = ''Authority''\<rparr>,
              \<lparr>success = True, message = ''Push notifications sent to 2 devices'',
               result_type = ''Push''\<rparr>]\<rparr>) \<and>
   status (sample_alert Pending) \<noteq> Acknowledged"
  by (simp add: notifyAll_def sms_block_eq email_block_eq push_block_eq phoneNumbers_of_def
      emailAddresses_of_def authority_block_def AuthorityAlert_sendAlert_def
      AuthorityAlert_body_def try_catch_def env_up_def new_AuthorityAlert_def tagged_def
      sample_alert_def set_status_def)

text \<open>
  Claim C2, as the code has it: the status setter stores whatever status it is given and
  changes no other field; it has no failure.
\<close>

theorem set_status_assigns:
  "status (set_status a v) = v \<and>
   alert_id (set_status a v) = alert_id a \<and>
   userId (set_status a v) = userId a \<and>
   alert_type (set_status a v) = alert_type a \<and>
   alert_message (set_status a v) = alert_message a \<and>
   timestamp (set_status a v) = timestamp a \<and>
   location (set_status a v) = location a \<and>
   locationAddress (set_status a v) = locationAddress a"
  by (simp add: set_status_def)

text \<open>
  Claim C2 as stated fails: on a resolved alert the setter accepts \<^verbatim>\<open>pending\<close>
  and \<^verbatim>\<open>acknowledged\<close>, and the status moves backward.
\<close>

theorem set_status_backward_counterexample:
  "status (sample_alert Resolved) = Resolved \<and>
   status (set_status (sample_alert Resolved) Pending) = Pending \<and>
   status (set_status (sample_alert Resolved) Acknowledged) = Acknowledged"
  by (simp add: set_status_def sample_alert_def)

text \<open>
  Claim C3: \<^verbatim>\<open>notifyAll\<close> sends the SMS channel, built with the non-empty
  phones, exactly when some contact has a non-empty phone, the Email channel exactly when
  some contact has a non-empty email, and always the Authority and the Push channel: the
  entries it returns are the results of these very \<^verbatim>\<open>sendAlert\<close> calls, tagged
  SMS, Email, Authority, Push in this order, with no entry for a channel that was skipped
  and no other entry; with no contacts they are the Authority and the Push result alone.
\<close>

theorem notifyAll_channels:
  "(\<exists>r sms_obj sms_res em_obj em_res au_obj au_res pu_obj pu_res.
      notifyAll env alert contacts = Inr (alert, r) \<and>
      SMSAlert_sendAlert
        (new_SMSAlert (randomUUID env 0) (clock env 0) (userId alert) (alert_type alert)
           (alert_message alert) (location alert) (locationAddress alert)
           (filter (\<lambda>p. p \<noteq> []) (map phone contacts))) = Inr (sms_obj, sms_res) \<and>
      EmailAlert_sendAlert
        (new_EmailAlert (randomUUID env 1) (clock env 1) (userId alert) (alert_type alert)
           (alert_message alert) (location alert) (locationAddress alert)
           (emailAddresses_of contacts)) = Inr (em_obj, em_res) \<and>
      AuthorityAlert_sendAlert env
        (new_AuthorityAlert (randomUUID env 2) (clock env 2) (userId alert) (alert_type alert)
           (alert_message alert) (location alert) (locationAddress alert)) = Inr (au_obj, au_res) \<and>
      PushNotificationAlert_sendAlert (pushAlert_of env alert) = Inr (pu_obj, pu_res) \<and>
      results r =
        (if \<exists>c \<in> set contacts. phone c \<noteq> [] then [tagged ''SMS'' sms_res] else []) @
        (if \<exists>c \<in> set contacts. \<exists>e. email c = Some e \<and> e \<noteq> []
         then [tagged ''Email'' em_res] else []) @
        [tagged ''Authority'' au_res, tagged ''Push'' pu_res] \<and>
      map result_type (results r) =
        (if \<exists>c \<in> set contacts. phone c \<noteq> [] then [''SMS''] else []) @
        (if \<exists>c \<in> set contacts. \<exists>e. email c = Some e \<and> e \<noteq> [] then [''Email''] else []) @
        [''Authority'', ''Push'']) \<and>
   (\<exists>r au_obj au_res pu_obj pu_res.
      notifyAll env alert [] = Inr (alert, r) \<and>
      AuthorityAlert_sendAlert env
        (new_AuthorityAlert (randomUUID env 2) (clock env 2) (userId alert) (alert_type alert)
           (alert_message alert) (location alert) (locationAddress alert)) = Inr (au_obj, au_res) \<and>
      PushNotificationAlert_sendAlert (pushAlert_of env alert) = Inr (pu_obj, pu_res) \<and>
      results r = [tagged ''Authority'' au_res, tagged ''Push'' pu_res] \<and>
      map result_type (results r) = [''Authority'', ''Push''])"
proof -
  have linked: "\<exists>r sms_obj sms_res em_obj em_res au_obj au_res pu_obj pu_res.
      notifyAll env alert cs = Inr (alert, r) \<and>
      SMSAlert_sendAlert
        (new_SMSAlert (randomUUID env 0) (clock env 0) (userId alert) (alert_type alert)
           (alert_message alert) (location alert) (locationAddress alert)
           (phoneNumbers_of cs)) = Inr (sms_obj, sms_res) \<and>
      EmailAlert_sendAlert
        (new_EmailAlert (randomUUID env 1) (clock env 1) (userId alert) (alert_type alert)
           (alert_message alert) (location alert) (locationAddress alert)
           (emailAddresses_of cs)) = Inr (em_obj, em_res) \<and>
      AuthorityAlert_sendAlert env
        (new_AuthorityAlert (randomUUID env 2) (clock env 2) (userId alert) (alert_type alert)
           (alert_message alert) (location alert) (locationAddress alert)) = Inr (au_obj, au_res) \<and>
      PushNotificationAlert_sendAlert (pushAlert_of env alert) = Inr (pu_obj, pu_res) \<and>
      results r =
        (if phoneNumbers_of cs = [] then [] else [tagged ''SMS'' sms_res]) @
        (if emailAddresses_of cs = [] then [] else [tagged ''Email'' em_res]) @
        [tagged ''Authority'' au_res, tagged ''Push'' pu_res]" for cs
  proof -
    obtain sms_obj sms_res where sms: "SMSAlert_sendAlert
        (new_SMSAlert (randomUUID env 0) (clock env 0) (userId alert) (alert_type alert)
           (alert_message alert) (location alert) (locationAddress alert)
           (phoneNumbers_of cs)) = Inr (sms_obj, sms_res)"
      by (simp add: SMSAlert_sendAlert_eq)
    obtain em_obj em_res where em: "EmailAlert_sendAlert
        (new_EmailAlert (randomUUID env 1) (clock env 1) (userId alert) (alert_type alert)
           (alert_message alert) (location alert) (locationAddress alert)
           (emailAddresses_of cs)) = Inr (em_obj, em_res)"
      by (simp add: EmailAlert_sendAlert_eq)
    obtain au_obj au_res where au: "AuthorityAlert_sendAlert env
        (new_AuthorityAlert (randomUUID env 2) (clock env 2) (userId alert) (alert_type alert)
           (alert_message alert) (location alert) (locationAddress alert)) = Inr (au_obj, au_res)"
      using AuthorityAlert_sendAlert_total by blast
    obtain pu_obj pu_res where pu:
      "PushNotificationAlert_sendAlert (pushAlert_of env alert) = Inr (pu_obj, pu_res)"
      by (simp add: PushNotificationAlert_sendAlert_eq)
    have "\<exists>r. notifyAll env alert cs = Inr (alert, r) \<and>
      results r =
        (if phoneNumbers_of cs = [] then [] else [tagged ''SMS'' sms_res]) @
        (if emailAddresses_of cs = [] then [] else [tagged ''Email'' em_res]) @
        [tagged ''Authority'' au_res, tagged ''Push'' pu_res]"
      by (simp add: notifyAll_def sms_block_linked [OF sms] email_block_linked [OF em]
          authority_block_linked [OF au] push_block_linked [OF pu])
    with sms em au pu show ?thesis
      by blast
  qed
  have types: "map result_type
        ((if a then [tagged ''SMS'' x] else []) @ (if b then [tagged ''Email'' y] else []) @
         [tagged ''Authority'' z, tagged ''Push'' w]) =
        (if a then [''SMS''] else []) @ (if b then [''Email''] else []) @
        [''Authority'', ''Push'']" for a b x y z w
    by (simp add: result_type_tagged)
  have first: "\<exists>r sms_obj sms_res em_obj em_res au_obj au_res pu_obj pu_res.
      notifyAll env alert contacts = Inr (alert, r) \<and>
      SMSAlert_sendAlert
        (new_SMSAlert (randomUUID env 0) (clock env 0) (userId alert) (alert_type alert)
           (alert_message alert) (location alert) (locationAddress alert)
           (filter (\<lambda>p. p \<noteq> []) (map phone contacts))) = Inr (sms_obj, sms_res) \<and>
      EmailAlert_sendAlert
        (new_EmailAlert (randomUUID env 1) (clock env 1) (userId alert) (alert_type alert)
           (alert_message alert) (location alert) (locationAddress alert)
           (emailAddresses_of contacts)) = Inr (em_obj, em_res) \<and>
      AuthorityAlert_sendAlert env
        (new_AuthorityAlert (randomUUID env 2) (clock env 2) (userId alert) (alert_type alert)
           (alert_message alert) (location alert) (locationAddress alert)) = Inr (au_obj, au_res) \<and>
      PushNotificationAlert_sendAlert (pushAlert_of env alert) = Inr (pu_obj, pu_res) \<and>
      results r =
        (if \<exists>c \<in> set contacts. phone c \<noteq> [] then [tagged ''SMS'' sms_res] else []) @
        (if \<exists>c \<in> set contacts. \<exists>e. email c = Some e \<and> e \<noteq> []
         then [tagged ''Email'' em_res] else []) @
        [tagged ''Authority'' au_res, tagged ''Push'' pu_res] \<and>
      map result_type (results r) =
        (if \<exists>c \<in> set contacts. phone c \<noteq> [] then [''SMS''] else []) @
        (if \<exists>c \<in> set contacts. \<exists>e. email c = Some e \<and> e \<noteq> [] then [''Email''] else []) @
        [''Authority'', ''Push'']"
  proof -
    from linked [of contacts] obtain r sms_obj sms_res em_obj em_res au_obj au_res pu_obj pu_res
      where l: "notifyAll env alert contacts = Inr (alert, r)"
        "SMSAlert_sendAlert
          (new_SMSAlert (randomUUID env 0) (clock env 0) (userId alert) (alert_type alert)
             (alert_message alert) (location alert) (locationAddress alert)
             (phoneNumbers_of contacts)) = Inr (sms_obj, sms_res)"
        "EmailAlert_sendAlert
          (new_EmailAlert (randomUUID env 1) (clock env 1) (userId alert) (alert_type alert)
             (alert_message alert) (location alert) (locationAddress alert)
             (emailAddresses_of contacts)) = Inr (em_obj, em_res)"
        "AuthorityAlert_sendAlert env
          (new_AuthorityAlert (randomUUID env 2) (clock env 2) (userId alert) (alert_type alert)
             (alert_message alert) (location alert) (locationAddress alert)) = Inr (au_obj, au_res)"
        "PushNotificationAlert_sendAlert (pushAlert_of env alert) = Inr (pu_obj, pu_res)"
        "results r =
          (if phoneNumbers_of contacts = [] then [] else [tagged ''SMS'' sms_res]) @
          (if emailAddresses_of contacts = [] then [] else [tagged ''Email'' em_res]) @
          [tagged ''Authority'' au_res, tagged ''Push'' pu_res]"
      by blast
    have "truthy = (\<lambda>p. p \<noteq> [])"
      by (rule ext) (simp add: truthy_def)
    then have phones: "phoneNumbers_of contacts = filter (\<lambda>p. p \<noteq> []) (map phone contacts)"
      by (simp add: phoneNumbers_of_def)
    have res: "results r =
        (if \<exists>c \<in> set contacts. phone c \<noteq> [] then [tagged ''SMS'' sms_res] else []) @
        (if \<exists>c \<in> set contacts. \<exists>e. email c = Some e \<and> e \<noteq> []
         then [tagged ''Email'' em_res] else []) @
        [tagged ''Authority'' au_res, tagged ''Push'' pu_res]"
      unfolding l(6) by (simp add: phoneNumbers_of_empty emailAddresses_of_empty)
    have "map result_type (results r) =
        (if \<exists>c \<in> set contacts. phone c \<noteq> [] then [''SMS''] else []) @
        (if \<exists>c \<in> set contacts. \<exists>e. email c = Some e \<and> e \<noteq> [] then [''Email''] else []) @
        [''Authority'', ''Push'']"
      unfolding res by (rule types)
    with l(1) l(2) [unfolded phones] l(3) l(4) l(5) res show ?thesis
      by blast
  qed
  have second: "\<exists>r au_obj au_res pu_obj pu_res.
      notifyAll env alert [] = Inr (alert, r) \<and>
      AuthorityAlert_sendAlert env
        (new_AuthorityAlert (randomUUID env 2) (clock env 2) (userId alert) (alert_type alert)
           (alert_message alert) (location alert) (locationAddress alert)) = Inr (au_obj, au_res) \<and>
      PushNotificationAlert_sendAlert (pushAlert_of env alert) = Inr (pu_obj, pu_res) \<and>
      results r = [tagged ''Authority'' au_res, tagged ''Push'' pu_res] \<and>
      map result_type (results r) = [''Authority'', ''Push'']"
  proof -
    from linked [of "[]"] obtain r au_obj au_res pu_obj pu_res sms_res em_res
      where l: "notifyAll env alert [] = Inr (alert, r)"
        "AuthorityAlert_sendAlert env
          (new_AuthorityAlert (randomUUID env 2) (clock env 2) (userId alert) (alert_type alert)
             (alert_message alert) (location alert) (locationAddress alert)) = Inr (au_obj, au_res)"
        "PushNotificationAlert_sendAlert (pushAlert_of env alert) = Inr (pu_obj, pu_res)"
        "results r =
          (if phoneNumbers_of [] = [] then [] else [tagged ''SMS'' sms_res]) @
          (if emailAddresses_of [] = [] then [] else [tagged ''Email'' em_res]) @
          [tagged ''Authority'' au_res, tagged ''Push'' pu_res]"
      by blast
    from l(4) have res: "results r = [tagged ''Authority'' au_res, tagged ''Push'' pu_res]"
      by (simp add: phoneNumbers_of_def emailAddresses_of_def)
    then have "map result_type (results r) = [''Authority'', ''Push'']"
      by (simp add: result_type_tagged)
    with l(1) l(2) l(3) res show ?thesis
      by (iprover intro: exI conjI)
  qed
  from first second show ?thesis ..
qed

text \<open>
  Claim C4: the overall flag that \<^verbatim>\<open>notifyAll\<close> returns is the conjunction of
  the \<open>success\<close> flags of the entries it returns, and the entries are never empty.
\<close>

theorem notifyAll_success_is_conjunction:
  "\<exists>r. notifyAll env alert contacts = Inr (alert, r) \<and>
       all_success r = list_all success (results r) \<and>
       results r \<noteq> []"
proof -
  obtain r where r: "notifyAll env alert contacts = Inr (alert, r)"
      "all_success r = list_all success (results r)"
      "map result_type (results r) =
          (if \<exists>c \<in> set contacts. phone c \<noteq> [] then [''SMS''] else []) @
          (if \<exists>c \<in> set contacts. \<exists>e. email c = Some e \<and> e \<noteq> [] then [''Email''] else []) @
          [''Authority'', ''Push'']"
    using notifyAll_summary [of env alert contacts] by blast
  from r(3) have "results r \<noteq> []" by auto
  with r(1,2) show ?thesis by blast
qed

text \<open>
  Claim C5: every channel's \<^verbatim>\<open>sendAlert\<close> returns a result and never an
  exception; when the Authority channel's insert or edge-function call throws, the result is
  \<open>success = False\<close> with the message "Failed to notify authorities"; and
  \<^verbatim>\<open>notifyAll\<close> itself returns, with the Authority and Push entries present,
  whatever the backend does.
\<close>

theorem sendAlert_never_throws:
  "(\<exists>obj res. SMSAlert_sendAlert sms = Inr (obj, res)) \<and>
   (\<exists>obj res. EmailAlert_sendAlert em = Inr (obj, res)) \<and>
   (\<exists>obj res. AuthorityAlert_sendAlert env au = Inr (obj, res)) \<and>
   (\<exists>obj res. PushNotificationAlert_sendAlert pu = Inr (obj, res)) \<and>
   (AuthorityAlert_body env au = Inl e \<longrightarrow>
      AuthorityAlert_sendAlert env au =
        Inr (set_status au Pending,
             \<lparr>success = False, message = ''Failed to notify authorities''\<rparr>)) \<and>
   (\<exists>r. notifyAll env alert contacts = Inr (alert, r) \<and>
        ''Authority'' \<in> set (map result_type (results r)) \<and>
        ''Push'' \<in> set (map result_type (results r)))"
proof -
  have never: "\<exists>r. notifyAll env alert contacts = Inr (alert, r) \<and>
        ''Authority'' \<in> set (map result_type (results r)) \<and>
        ''Push'' \<in> set (map result_type (results r))"
  proof -
    obtain r where r: "notifyAll env alert contacts = Inr (alert, r)"
      "map result_type (results r) =
          (if \<exists>c \<in> set contacts. phone c \<noteq> [] then [''SMS''] else []) @
          (if \<exists>c \<in> set contacts. \<exists>e. email c = Some e \<and> e \<noteq> [] then [''Email''] else []) @
          [''Authority'', ''Push'']"
      using notifyAll_summary [of env alert contacts] by blast
    have "''Authority'' \<in> set (map result_type (results r))"
      "''Push'' \<in> set (map result_type (results r))"
      unfolding r(2) by simp_all
    with r(1) show ?thesis by blast
  qed
  show ?thesis
    using never AuthorityAlert_sendAlert_total [of env au]
    by (simp add: SMSAlert_sendAlert_eq EmailAlert_sendAlert_eq
        PushNotificationAlert_sendAlert_eq AuthorityAlert_sendAlert_failed)
qed

text \<open>
  A backend that rejects the insert: the Authority channel reports the failure as a value
  and the dispatch still reaches Push.
\<close>

theorem sendAlert_never_throws_witness:
  "AuthorityAlert_body env_down (new_AuthorityAlert ''x'' 0 ''u-1'' Fire ''smoke'' None ''home'') =
     Inl PostgrestError \<and>
   AuthorityAlert_sendAlert env_down (new_AuthorityAlert ''x'' 0 ''u-1'' Fire ''smoke'' None ''home'') =
     Inr (set_status (new_AuthorityAlert ''x'' 0 ''u-1'' Fire ''smoke'' None ''home'') Pending,
          \<lparr>success = False, message = ''Failed to notify authorities''\<rparr>) \<and>
   (\<exists>r. notifyAll env_down (sample_alert Pending) [] = Inr (sample_alert Pending, r) \<and>
        ''Authority'' \<in> set (map result_type (results r)) \<and>
        ''Push'' \<in> set (map result_type (results r)))"
proof -
  have failed:
    "AuthorityAlert_body env_down (new_AuthorityAlert ''x'' 0 ''u-1'' Fire ''smoke'' None ''home'') =
       Inl PostgrestError"
    by (simp add: AuthorityAlert_body_def env_down_def)
  note inst = sendAlert_never_throws
    [of "new_SMSAlert ''s'' 0 ''u-1'' Fire ''smoke'' None ''home'' [''+1'']"
      "new_EmailAlert ''m'' 0 ''u-1'' Fire ''smoke'' None ''home'' [''a@b'']" env_down
      "new_AuthorityAlert ''x'' 0 ''u-1'' Fire ''smoke'' None ''home''"
      "new_PushNotificationAlert ''p'' 0 ''u-1'' Fire ''smoke'' None ''home'' []"
      PostgrestError "sample_alert Pending" "[]"]
  from inst
  have dispatched:
    "\<exists>r. notifyAll env_down (sample_alert Pending) [] = Inr (sample_alert Pending, r) \<and>
        ''Authority'' \<in> set (map result_type (results r)) \<and>
        ''Push'' \<in> set (map result_type (results r))"
    by blast
  from inst
  have "AuthorityAlert_body env_down
          (new_AuthorityAlert ''x'' 0 ''u-1'' Fire ''smoke'' None ''home'') = Inl PostgrestError \<longrightarrow>
        AuthorityAlert_sendAlert env_down
          (new_AuthorityAlert ''x'' 0 ''u-1'' Fire ''smoke'' None ''home'') =
        Inr (set_status (new_AuthorityAlert ''x'' 0 ''u-1'' Fire ''smoke'' None ''home'') Pending,
             \<lparr>success = False, message = ''Failed to notify authorities''\<rparr>)"
    by blast
  with failed dispatched show ?thesis by blast
qed

text \<open>
  Claim C6, as the code has it: the authority label is a fixed function of the category,
  with the table medical to "911 Medical", fire to "Fire Department", police to
  "Police Department", general to "Emergency Services"; the constructor stores it.
\<close>

theorem determineAuthority_table:
  "determineAuthority Medical = ''911 Medical'' \<and>
   determineAuthority Fire = ''Fire Department'' \<and>
   determineAuthority Police = ''Police Department'' \<and>
   determineAuthority General = ''Emergency Services'' \<and>
   authorityType (new_AuthorityAlert uid now u t m loc addr) = determineAuthority t"
  by (simp add: new_AuthorityAlert_def)

text \<open>
  Claim C6 as stated fails: none of the four labels of the code is the label the claim
  gives for its category.
\<close>

theorem determineAuthority_counterexample:
  "determineAuthority Medical \<noteq> ''medical services'' \<and>
   determineAuthority Fire \<noteq> ''fire department'' \<and>
   determineAuthority Police \<noteq> ''police department'' \<and>
   determineAuthority General \<noteq> ''general emergency services''"
  by simp

text \<open>
  Claim C7: a \<^verbatim>\<open>saveLog\<close> whose write is accepted leaves the new entry in
  front of the old ones, cut to the first 100; saving 101 entries with distinct ids into an
  empty store leaves exactly the last 100, most recent first, without the first one; and
  from a store of at most 100 entries no sequence of saves, deletions and clears, accepted
  or refused, gives more than 100.
\<close>

theorem saveLog_capped:
  "(readLogs ls = Inr logs \<longrightarrow>
      (\<exists>ls'. saveLog True ls entry = Inr ls' \<and> readLogs ls' = Inr (take 100 (entry # logs)))) \<and>
   (length batch = 101 \<and> distinct (map log_id batch) \<longrightarrow>
      (\<exists>ls' out. run Map.empty (map (SaveLog True) batch) = Inr ls' \<and>
         readLogs ls' = Inr out \<and> length out = 100 \<and> out = rev (tl batch) \<and>
         log_id (hd batch) \<notin> set (map log_id out))) \<and>
   (readLogs ls = Inr logs \<and> length logs \<le> 100 \<longrightarrow>
      (\<exists>ls' out. run ls cs = Inr ls' \<and> readLogs ls' = Inr out \<and> length out \<le> 100))"
proof (intro conjI impI)
  assume "readLogs ls = Inr logs"
  then show "\<exists>ls'. saveLog True ls entry = Inr ls' \<and> readLogs ls' = Inr (take 100 (entry # logs))"
    by (simp add: saveLog_written readLogs_stored)
next
  assume b: "length batch = 101 \<and> distinct (map log_id batch)"
  then obtain first rest where batch: "batch = first # rest"
    by (cases batch) auto
  with b have rest: "length rest = 100" "log_id first \<notin> set (map log_id rest)"
    by auto
  from run_saves [OF readLogs_empty, of batch] obtain ls' where
    ls': "run Map.empty (map (SaveLog True) batch) = Inr ls'"
      "readLogs ls' = Inr (take 100 (rev batch @ []))"
    by auto
  have "take 100 (rev batch @ []) = rev rest"
    using rest(1) by (simp add: batch)
  with ls' rest batch
  show "\<exists>ls' out. run Map.empty (map (SaveLog True) batch) = Inr ls' \<and>
         readLogs ls' = Inr out \<and> length out = 100 \<and> out = rev (tl batch) \<and>
         log_id (hd batch) \<notin> set (map log_id out)"
    by simp
next
  assume "readLogs ls = Inr logs \<and> length logs \<le> 100"
  then show "\<exists>ls' out. run ls cs = Inr ls' \<and> readLogs ls' = Inr out \<and> length out \<le> 100"
    using run_cap [of ls logs cs] by blast
qed

text \<open>
  One save into the empty store, the 101 logs with ids "0" to "100", and a short mixed
  sequence.
\<close>

theorem saveLog_capped_witness:
  "(\<exists>ls'. saveLog True Map.empty (sample_log 0) = Inr ls' \<and> readLogs ls' = Inr [sample_log 0]) \<and>
   (\<exists>ls' out. run Map.empty (map (SaveLog True) (map sample_log [0..<101])) = Inr ls' \<and>
      readLogs ls' = Inr out \<and> length out = 100 \<and>
      log_id (sample_log 0) \<notin> set (map log_id out)) \<and>
   (\<exists>ls' out. run Map.empty [SaveLog True (sample_log 0), DeleteLog False ''0'', ClearAllLogs] = Inr ls' \<and>
      readLogs ls' = Inr out \<and> length out \<le> 100)"
proof -
  have h1: "readLogs Map.empty = Inr []"
    by (rule readLogs_empty)
  have h2: "length (map sample_log [0..<101]) = 101 \<and>
            distinct (map log_id (map sample_log [0..<101]))"
    using sample_batch_distinct by simp
  have h3: "readLogs Map.empty = Inr [] \<and> length ([] :: EmergencyLog list) \<le> 100"
    using h1 by simp
  have hd0: "hd (map sample_log [0..<101]) = sample_log 0"
    by (simp add: hd_map upt_conv_Cons)
  note inst = saveLog_capped [of Map.empty "[]" "sample_log 0" "map sample_log [0..<101]"
      "[SaveLog True (sample_log 0), DeleteLog False ''0'', ClearAllLogs]"]
  from inst h1
  have "\<exists>ls'. saveLog True Map.empty (sample_log 0) = Inr ls' \<and>
          readLogs ls' = Inr (take 100 [sample_log 0])"
    by blast
  then have c1: "\<exists>ls'. saveLog True Map.empty (sample_log 0) = Inr ls' \<and>
          readLogs ls' = Inr [sample_log 0]"
    by simp
  from inst h2
  have "\<exists>ls' out. run Map.empty (map (SaveLog True) (map sample_log [0..<101])) = Inr ls' \<and>
      readLogs ls' = Inr out \<and> length out = 100 \<and> out = rev (tl (map sample_log [0..<101])) \<and>
      log_id (hd (map sample_log [0..<101])) \<notin> set (map log_id out)"
    by blast
  then have c2: "\<exists>ls' out. run Map.empty (map (SaveLog True) (map sample_log [0..<101])) = Inr ls' \<and>
      readLogs ls' = Inr out \<and> length out = 100 \<and>
      log_id (sample_log 0) \<notin> set (map log_id out)"
    unfolding hd0 by blast
  from inst h3
  have c3: "\<exists>ls' out.
      run Map.empty [SaveLog True (sample_log 0), DeleteLog False ''0'', ClearAllLogs] = Inr ls' \<and>
      readLogs ls' = Inr out \<and> length out \<le> 100"
    by blast
  from c1 c2 c3 show ?thesis by blast
qed

text \<open>
  Claim C8: \<^verbatim>\<open>deleteLog\<close> with an id that no stored entry has returns and
  leaves the logs as they were; an accepted deletion leaves exactly the entries with another
  id, in their order; and where ids are distinct that is the list without the one matching
  entry.
\<close>

theorem deleteLog_removes:
  "(readLogs ls = Inr logs \<and> logId \<notin> set (map log_id logs) \<longrightarrow>
      (\<exists>ls'. deleteLog ok ls logId = Inr ls' \<and> readLogs ls' = Inr logs)) \<and>
   (readLogs ls = Inr logs \<longrightarrow>
      (\<exists>ls'. deleteLog True ls logId = Inr ls' \<and>
         readLogs ls' = Inr (filter (\<lambda>entry. log_id entry \<noteq> logId) logs))) \<and>
   (readLogs ls = Inr (before @ entry # after) \<and> log_id entry = logId \<and>
    distinct (map log_id (before @ entry # after)) \<longrightarrow>
      (\<exists>ls'. deleteLog True ls logId = Inr ls' \<and> readLogs ls' = Inr (before @ after)))"
proof (intro conjI impI)
  assume a: "readLogs ls = Inr logs \<and> logId \<notin> set (map log_id logs)"
  then have same: "filter (\<lambda>entry. log_id entry \<noteq> logId) logs = logs"
    by (auto simp add: filter_id_conv)
  show "\<exists>ls'. deleteLog ok ls logId = Inr ls' \<and> readLogs ls' = Inr logs"
  proof (cases ok)
    case True
    with a same show ?thesis
      by (simp add: deleteLog_written readLogs_stored)
  next
    case False
    with a show ?thesis
      by (simp add: deleteLog_refused)
  qed
next
  assume "readLogs ls = Inr logs"
  then show "\<exists>ls'. deleteLog True ls logId = Inr ls' \<and>
         readLogs ls' = Inr (filter (\<lambda>entry. log_id entry \<noteq> logId) logs)"
    by (simp add: deleteLog_written readLogs_stored)
next
  assume a: "readLogs ls = Inr (before @ entry # after) \<and> log_id entry = logId \<and>
    distinct (map log_id (before @ entry # after))"
  then have "filter (\<lambda>x. log_id x \<noteq> logId) before = before"
    "filter (\<lambda>x. log_id x \<noteq> logId) after = after"
    by (auto simp add: filter_id_conv image_iff)
  with a show "\<exists>ls'. deleteLog True ls logId = Inr ls' \<and> readLogs ls' = Inr (before @ after)"
    by (simp add: deleteLog_written readLogs_stored)
qed

text \<open>
  A store with the one log "1": deleting "7" changes nothing, deleting "1" empties it; and
  from the logs "2", "1" deleting "2" leaves "1".
\<close>

theorem deleteLog_removes_witness:
  "(\<exists>ls'. deleteLog False sample_store ''7'' = Inr ls' \<and> readLogs ls' = Inr [sample_log 1]) \<and>
   (\<exists>ls'. deleteLog True sample_store ''1'' = Inr ls' \<and> readLogs ls' = Inr []) \<and>
   (\<exists>ls'. deleteLog True (Map.empty(STORAGE_KEY \<mapsto> Encoded [sample_log 2, sample_log 1])) ''2'' =
            Inr ls' \<and>
          readLogs ls' = Inr [sample_log 1])"
proof -
  have ids: "log_id (sample_log 1) = ''1''" "log_id (sample_log (Suc 0)) = ''1''"
    "log_id (sample_log 2) = ''2''"
    by (simp_all add: sample_log_def show_nat_digits)
  have h1: "readLogs sample_store = Inr [sample_log 1] \<and> ''7'' \<notin> set (map log_id [sample_log 1])"
    by (simp add: readLogs_sample_store ids)
  from deleteLog_removes [of sample_store "[sample_log 1]" "''7''" False] h1
  have c1: "\<exists>ls'. deleteLog False sample_store ''7'' = Inr ls' \<and> readLogs ls' = Inr [sample_log 1]"
    by blast
  from deleteLog_removes [of sample_store "[sample_log 1]" "''1''"] readLogs_sample_store
  have "\<exists>ls'. deleteLog True sample_store ''1'' = Inr ls' \<and>
          readLogs ls' = Inr (filter (\<lambda>entry. log_id entry \<noteq> ''1'') [sample_log 1])"
    by blast
  then have c2: "\<exists>ls'. deleteLog True sample_store ''1'' = Inr ls' \<and> readLogs ls' = Inr []"
    by (simp add: ids)
  have h3: "readLogs (Map.empty(STORAGE_KEY \<mapsto> Encoded [sample_log 2, sample_log 1])) =
              Inr ([] @ sample_log 2 # [sample_log 1]) \<and>
            log_id (sample_log 2) = ''2'' \<and>
            distinct (map log_id ([] @ sample_log 2 # [sample_log 1]))"
    by (simp add: readLogs_stored ids)
  from deleteLog_removes
    [of "Map.empty(STORAGE_KEY \<mapsto> Encoded [sample_log 2, sample_log 1])" _ "''2''" _
      "[]" "sample_log 2" "[sample_log 1]"] h3
  have "\<exists>ls'. deleteLog True (Map.empty(STORAGE_KEY \<mapsto> Encoded [sample_log 2, sample_log 1])) ''2'' =
            Inr ls' \<and>
          readLogs ls' = Inr ([] @ [sample_log 1])"
    by blast
  then have c3:
    "\<exists>ls'. deleteLog True (Map.empty(STORAGE_KEY \<mapsto> Encoded [sample_log 2, sample_log 1])) ''2'' =
            Inr ls' \<and>
          readLogs ls' = Inr [sample_log 1]"
    by simp
  from c1 c2 c3 show ?thesis by blast
qed




text \<open>
  Claim C10: the Push object that \<^verbatim>\<open>notifyAll\<close> builds has the two tokens
  "device-token-1" and "device-token-2"; its \<^verbatim>\<open>sendAlert\<close> succeeds with
  "Push notifications sent to 2 devices"; and every dispatch has exactly one Push entry, the
  last one, with that result, whatever the contacts and the backend.
\<close>

theorem push_always_two_devices:
  "deviceTokens (pushAlert_of env alert) = [''device-token-1'', ''device-token-2''] \<and>
   PushNotificationAlert_sendAlert (pushAlert_of env alert) =
     Inr (set_status (pushAlert_of env alert) Acknowledged,
          \<lparr>success = True, message = ''Push notifications sent to 2 devices''\<rparr>) \<and>
   (\<exists>r. notifyAll env alert contacts = Inr (alert, r) \<and>
        filter (\<lambda>x. result_type x = ''Push'') (results r) =
          [\<lparr>success = True, message = ''Push notifications sent to 2 devices'',
            result_type = ''Push''\<rparr>] \<and>
        last (results r) =
          \<lparr>success = True, message = ''Push notifications sent to 2 devices'',
           result_type = ''Push''\<rparr>)"
proof -
  have tokens: "deviceTokens (pushAlert_of env alert) = [''device-token-1'', ''device-token-2'']"
    by (rule deviceTokens_pushAlert_of)
  have sent: "PushNotificationAlert_sendAlert (pushAlert_of env alert) =
     Inr (set_status (pushAlert_of env alert) Acknowledged,
          \<lparr>success = True, message = ''Push notifications sent to 2 devices''\<rparr>)"
    by (simp add: PushNotificationAlert_sendAlert_eq tokens show_nat_digits)
  from tokens sent notifyAll_summary [of env alert contacts] show ?thesis
    by blast
qed

end
